theory Spec2Isabelle
  imports Main "HOL-Library.Word"
begin

unbundle bit_operations_syntax

section \<open>The process as the system-dependency module sees it\<close>

text \<open>
  The functions of \<^verbatim>\<open>src/sysdep.c\<close> are embedded for the GNU/Linux configuration
  (POSIX termios, \<^verbatim>\<open>FORWARD_SIGNAL_TO_MAIN_THREAD\<close>, \<^verbatim>\<open>HAVE_STACK_OVERFLOW_HANDLING\<close>,
  \<^verbatim>\<open>SIGTTOU\<close>, \<^verbatim>\<open>O_PATH\<close>; neither \<^verbatim>\<open>DOS_NT\<close>, \<^verbatim>\<open>MSDOS\<close> nor \<^verbatim>\<open>HAVE_ANDROID\<close>).
  C integers that only carry a return code, an errno value, a descriptor or a byte count
  are \<open>int\<close>; the operating system never hands the code a count outside \<open>ssize_t\<close>, and
  no arithmetic of these functions can leave the range on its own. Pointers that are
  subtracted and compared (the stack heuristic) are 64-bit words.
\<close>

subsection \<open>Error numbers and constants of the platform headers\<close>

definition EINTR :: int where "EINTR = 4"
definition EIO :: int where "EIO = 5"


definition O_TEXT :: int where "O_TEXT = 0"
definition O_BINARY :: int where "O_BINARY = 0"
definition O_CLOEXEC :: int where "O_CLOEXEC = 524288"
definition AT_FDCWD :: int where "AT_FDCWD = - 100"

definition NCCS :: nat where "NCCS = 32"

subsection \<open>Signals and their dispositions\<close>

datatype signal =
    SIGHUP | SIGINT | SIGQUIT | SIGILL | SIGTRAP | SIGABRT | SIGBUS | SIGFPE
  | SIGUSR1 | SIGSEGV | SIGUSR2 | SIGPIPE | SIGALRM | SIGTERM | SIGCHLD
  | SIGTTOU | SIGIO | SIGXCPU | SIGXFSZ | SIGVTALRM | SIGPROF | SIGWINCH | SIGSYS

text \<open>On GNU/Linux \<^verbatim>\<open>SIGIOT\<close> is another name of \<^verbatim>\<open>SIGABRT\<close>.\<close>

definition SIGIOT :: signal where "SIGIOT = SIGABRT"

text \<open>
  The value of \<^verbatim>\<open>sa_handler\<close>: the two special dispositions, or one of the handlers this
  module installs. \<open>Deliver_user_signal\<close> stands for the handler that \<^verbatim>\<open>add_user_signal\<close>
  (keyboard.c) installs.
\<close>

datatype handler_t =
    SIG_DFL | SIG_IGN
  | Deliver_fatal_signal | Deliver_fatal_thread_signal | Deliver_arith_signal
  | Handle_sigsegv | Deliver_user_signal

datatype sa_flag = SA_RESTART | SA_SIGINFO | SA_ONSTACK

record sigaction_t =
  sa_handler :: handler_t
  sa_mask :: "signal set"
  sa_flags :: "sa_flag set"

subsection \<open>Terminal structures\<close>

record termios =
  c_iflag :: "32 word"
  c_oflag :: "32 word"
  c_cflag :: "32 word"
  c_lflag :: "32 word"
  c_cc :: "8 word list"

record emacs_tty =
  main :: termios

text \<open>
  A tty device of \<^verbatim>\<open>tty_list\<close>. \<open>input\<close> is the descriptor of the \<^verbatim>\<open>FILE *input\<close> stream
  (\<^verbatim>\<open>fileno (tty->input)\<close>), or \<open>None\<close> when the pointer is null: the device is suspended.
\<close>

record tty_display_info =
  input :: "int option"

datatype optional_actions = TCSADRAIN | TCSAFLUSH

subsection \<open>Global state\<close>

text \<open>
  The globals the embedded functions read and write, together with \<^verbatim>\<open>errno\<close> and the
  kernel's table of signal dispositions. \<open>pthread_self\<close> is the thread the code runs on,
  \<open>stack_top\<close> is \<^verbatim>\<open>current_thread->stack_top\<close>, and \<open>input_available_clear_time\<close> is
  \<open>None\<close> when the pointer is null. The record is extensible: whatever else the operating
  system keeps lives in the extension.
\<close>

record world =
  errno :: int
  noninteractive :: bool
  pending_signals :: bool
  gc_in_progress :: bool
  attempt_stack_overflow_recovery :: bool
  stack_bottom :: "64 word"
  stack_top :: "64 word"
  pthread_self :: nat
  main_thread_id :: nat
  inherited_pgroup :: int
  tty_list :: "tty_display_info list"
  sigtable :: "signal \<Rightarrow> sigaction_t"
  process_fatal_action :: sigaction_t
  empty_mask :: "signal set"
  input_available_clear_time :: "(int \<times> int) option"

text \<open>
  How a call ends. A C function either returns, or leaves through one of the non-local
  exits of this code: a quit raised by \<^verbatim>\<open>maybe_quit\<close>, an \<^verbatim>\<open>eassert\<close> that fails in a
  build with \<^verbatim>\<open>ENABLE_CHECKING\<close>, the \<^verbatim>\<open>siglongjmp\<close> to \<^verbatim>\<open>return_to_command_loop\<close>,
  the termination of the process, or a thread that suspends itself for good.
\<close>

datatype exit_kind = Quit | Die | SigLongJmp | Terminate signal | Suspend

datatype ('a, 'w) outcome = Return 'a 'w | NonLocalExit exit_kind 'w

datatype sigmask_how = SIG_BLOCK | SIG_SETMASK

text \<open>
  The environment of the module: the system calls it makes and the functions of other
  Emacs files it calls, none of which is among the sources. Each takes the state and
  returns its C return value with the new state (which holds \<^verbatim>\<open>errno\<close>); the system
  calls carry the prefix \<open>os\<close>. \<open>os_read\<close> and \<open>os_write\<close> take the descriptor, the
  address of the buffer and the count; \<open>os_waitpid\<close> takes the process id, whether a
  status pointer is passed, and the options; \<open>os_tcgetattr\<close> takes the structure it is
  asked to fill and returns it as it leaves it; \<open>os_pthread_sigmask\<close> returns the
  previous mask. \<open>maybe_quit\<close> and \<open>process_pending_signals\<close> may leave by a non-local
  exit (the spec: the cancellation check "may abort the whole operation by transferring
  control out via a non-local exit"). \<open>MAX_RW_COUNT\<close> is the constant of lisp.h, and
  \<open>ENABLE_CHECKING\<close> tells whether the build compiles \<^verbatim>\<open>eassert\<close> in. The theorems hold
  for every environment unless they name the simulated one.
\<close>

record 'w env =
  os_read :: "int \<Rightarrow> int \<Rightarrow> int \<Rightarrow> 'w \<Rightarrow> int \<times> 'w"
  os_write :: "int \<Rightarrow> int \<Rightarrow> int \<Rightarrow> 'w \<Rightarrow> int \<times> 'w"
  os_openat :: "int \<Rightarrow> string \<Rightarrow> int \<Rightarrow> int \<Rightarrow> 'w \<Rightarrow> int \<times> 'w"
  os_close :: "int \<Rightarrow> 'w \<Rightarrow> int \<times> 'w"
  os_waitpid :: "int \<Rightarrow> bool \<Rightarrow> int \<Rightarrow> 'w \<Rightarrow> int \<times> 'w"
  os_tcsetattr :: "int \<Rightarrow> optional_actions \<Rightarrow> termios \<Rightarrow> 'w \<Rightarrow> int \<times> 'w"
  os_tcgetattr :: "int \<Rightarrow> termios \<Rightarrow> 'w \<Rightarrow> int \<times> termios \<times> 'w"
  os_tcsetpgrp :: "int \<Rightarrow> int \<Rightarrow> 'w \<Rightarrow> int \<times> 'w"
  os_setpgid :: "int \<Rightarrow> int \<Rightarrow> 'w \<Rightarrow> int \<times> 'w"
  os_getpid :: "'w \<Rightarrow> int"
  os_pthread_sigmask :: "sigmask_how \<Rightarrow> signal set \<Rightarrow> 'w \<Rightarrow> signal set \<times> 'w"
  os_pthread_kill :: "nat \<Rightarrow> signal \<Rightarrow> 'w \<Rightarrow> int \<times> 'w"
  os_sigaltstack :: "'w \<Rightarrow> int \<times> 'w"
  maybe_quit :: "'w \<Rightarrow> (unit, 'w) outcome"
  process_pending_signals :: "'w \<Rightarrow> (unit, 'w) outcome"
  block_input :: "'w \<Rightarrow> 'w"
  unblock_input :: "'w \<Rightarrow> 'w"
  MAX_RW_COUNT :: int
  ENABLE_CHECKING :: bool

section \<open>Signal delivery\<close>

definition sigaction :: "signal \<Rightarrow> sigaction_t \<Rightarrow> 'a world_scheme \<Rightarrow> 'a world_scheme" where
  "sigaction sig act w = w\<lparr>sigtable := (sigtable w)(sig := act)\<rparr>"

text \<open>\<^verbatim>\<open>signal (sig, handler)\<close>: only the handler of the disposition is given.\<close>

definition signal_c :: "signal \<Rightarrow> handler_t \<Rightarrow> 'a world_scheme \<Rightarrow> 'a world_scheme" where
  "signal_c sig h w =
     w\<lparr>sigtable := (sigtable w)(sig := \<lparr>sa_handler = h, sa_mask = {}, sa_flags = {}\<rparr>)\<rparr>"

definition emacs_sigaction_flags :: "'a world_scheme \<Rightarrow> sa_flag set" where
  "emacs_sigaction_flags w = (if noninteractive w then {SA_RESTART} else {})"

definition emacs_sigaction_init :: "handler_t \<Rightarrow> 'a world_scheme \<Rightarrow> sigaction_t" where
  "emacs_sigaction_init handler w =
     \<lparr>sa_handler = handler,
      sa_mask = {SIGALRM, SIGCHLD, SIGPROF, SIGWINCH}
                \<union> (if \<not> noninteractive w then {SIGINT, SIGQUIT, SIGIO} else {}),
      sa_flags = emacs_sigaction_flags w\<rparr>"

text \<open>
  \<^verbatim>\<open>deliver_process_signal\<close>. The return values of \<^verbatim>\<open>pthread_sigmask\<close> and
  \<^verbatim>\<open>pthread_kill\<close> are ignored by the code; \<open>handler\<close> may not return.
\<close>

definition deliver_process_signal ::
  "'a world_scheme env \<Rightarrow> signal \<Rightarrow>
   (signal \<Rightarrow> 'a world_scheme \<Rightarrow> (unit, 'a world_scheme) outcome) \<Rightarrow>
   'a world_scheme \<Rightarrow> (unit, 'a world_scheme) outcome" where
  "deliver_process_signal E sig handler w =
     (let old_errno = errno w in
      if pthread_self w \<noteq> main_thread_id w
      then
        (let blocked = {sig};
             w1 = snd (os_pthread_sigmask E SIG_BLOCK blocked w);
             w2 = snd (os_pthread_kill E (main_thread_id w1) sig w1)
         in Return () (w2\<lparr>errno := old_errno\<rparr>))
      else
        (case handler sig w of
           Return u w1 \<Rightarrow> Return () (w1\<lparr>errno := old_errno\<rparr>)
         | NonLocalExit k w1 \<Rightarrow> NonLocalExit k w1))"

text \<open>
  \<^verbatim>\<open>deliver_thread_signal\<close>. Off the main thread it saves a backtrace (into a buffer that
  nothing here reads), reinstalls the fatal-process action, signals the main thread and
  loops in \<^verbatim>\<open>sigsuspend\<close> for ever.
\<close>

definition deliver_thread_signal ::
  "'a world_scheme env \<Rightarrow> signal \<Rightarrow>
   (signal \<Rightarrow> 'a world_scheme \<Rightarrow> (unit, 'a world_scheme) outcome) \<Rightarrow>
   'a world_scheme \<Rightarrow> (unit, 'a world_scheme) outcome" where
  "deliver_thread_signal E sig handler w =
     (let old_errno = errno w in
      if pthread_self w \<noteq> main_thread_id w
      then
        (let w1 = sigaction sig (process_fatal_action w) w;
             w2 = snd (os_pthread_kill E (main_thread_id w1) sig w1)
         in NonLocalExit Suspend w2)
      else
        (case handler sig w of
           Return u w1 \<Rightarrow> Return () (w1\<lparr>errno := old_errno\<rparr>)
         | NonLocalExit k w1 \<Rightarrow> NonLocalExit k w1))"

text \<open>
  Modelled from the spec: \<^verbatim>\<open>terminate_due_to_signal\<close> (emacs.c) is not among the sources;
  the spec's fatal category "terminates the process", so the call never returns.
\<close>

definition terminate_due_to_signal ::
  "signal \<Rightarrow> int \<Rightarrow> 'a world_scheme \<Rightarrow> (unit, 'a world_scheme) outcome" where
  "terminate_due_to_signal sig backtrace_limit w = NonLocalExit (Terminate sig) w"

definition handle_fatal_signal ::
  "signal \<Rightarrow> 'a world_scheme \<Rightarrow> (unit, 'a world_scheme) outcome" where
  "handle_fatal_signal sig w = terminate_due_to_signal sig 40 w"

definition deliver_fatal_signal ::
  "'a world_scheme env \<Rightarrow> signal \<Rightarrow> 'a world_scheme \<Rightarrow> (unit, 'a world_scheme) outcome" where
  "deliver_fatal_signal E sig w = deliver_process_signal E sig handle_fatal_signal w"

definition deliver_fatal_thread_signal ::
  "'a world_scheme env \<Rightarrow> signal \<Rightarrow> 'a world_scheme \<Rightarrow> (unit, 'a world_scheme) outcome" where
  "deliver_fatal_thread_signal E sig w = deliver_thread_signal E sig handle_fatal_signal w"

section \<open>Recovery from stack overflow\<close>

record siginfo_t =
  si_addr :: "64 word"

definition LG_STACK_HEURISTIC :: nat where "LG_STACK_HEURISTIC = 8"

text \<open>
  \<^verbatim>\<open>stack_overflow\<close>. A null \<^verbatim>\<open>siginfo\<close> pointer is \<open>None\<close>, a null fault address is the
  word 0. Pointer differences have type \<^verbatim>\<open>ptrdiff_t\<close>: the difference of the two words
  read as a signed number, and \<^verbatim>\<open>>>\<close> shifts it arithmetically.
\<close>

definition stack_overflow :: "siginfo_t option \<Rightarrow> 'a world_scheme \<Rightarrow> bool" where
  "stack_overflow siginfo w =
     (if \<not> attempt_stack_overflow_recovery w then False
      else case siginfo of
        None \<Rightarrow> False
      | Some si \<Rightarrow>
          (let addr = si_addr si in
           if addr = 0 then False
           else
             (let bot = stack_bottom w; top = stack_top w in
              if bot < top
              then 0 \<le> sint (addr - top)
                   \<and> sint (addr - top) < drop_bit LG_STACK_HEURISTIC (sint (top - bot))
              else 0 \<le> sint (top - addr)
                   \<and> sint (top - addr) < drop_bit LG_STACK_HEURISTIC (sint (bot - top)))))"

definition handle_sigsegv ::
  "'a world_scheme env \<Rightarrow> signal \<Rightarrow> siginfo_t option \<Rightarrow> 'a world_scheme \<Rightarrow> (unit, 'a world_scheme) outcome" where
  "handle_sigsegv E sig siginfo w =
     (let fatal = gc_in_progress w;
          fatal = (if \<not> fatal \<and> pthread_self w \<noteq> main_thread_id w then True else fatal)
      in if \<not> fatal \<and> stack_overflow siginfo w
         then NonLocalExit SigLongJmp w
         else deliver_fatal_thread_signal E sig w)"

section \<open>Installing the handlers\<close>

definition IEEE_FLOATING_POINT :: bool where "IEEE_FLOATING_POINT = True"

definition maybe_fatal_sig :: "signal \<Rightarrow> 'a world_scheme \<Rightarrow> 'a world_scheme" where
  "maybe_fatal_sig sig w =
     (let catch_sig = \<not> noninteractive w;
          catch_sig =
            (if \<not> catch_sig
             then (let old_action = sigtable w sig in sa_handler old_action \<noteq> SIG_IGN)
             else catch_sig)
      in if catch_sig then sigaction sig (process_fatal_action w) w else w)"

text \<open>
  \<^verbatim>\<open>init_sigsegv\<close>: false when \<^verbatim>\<open>sigaltstack\<close> fails; the \<^verbatim>\<open>sigaction\<close> of this model
  cannot fail. The saved old handler is only used on Android.
\<close>

definition init_sigsegv :: "'a world_scheme env \<Rightarrow> 'a world_scheme \<Rightarrow> bool \<times> 'a world_scheme" where
  "init_sigsegv E w =
     (case os_sigaltstack E w of (r, w1) \<Rightarrow>
        if r < 0 then (False, w1)
        else
          (let sa = \<lparr>sa_handler = Handle_sigsegv, sa_mask = UNIV,
                     sa_flags = {SA_SIGINFO, SA_ONSTACK} \<union> emacs_sigaction_flags w1\<rparr>
           in (True, sigaction SIGSEGV sa w1)))"

text \<open>
  Modelled from the spec: \<^verbatim>\<open>add_user_signal\<close> (keyboard.c) is not among the sources; the
  spec keeps "user-defined signals 1/2" as a class of their own, so the call changes the
  disposition of its own signal and of no other.
\<close>

definition add_user_signal :: "signal \<Rightarrow> 'a world_scheme \<Rightarrow> 'a world_scheme" where
  "add_user_signal sig w = sigaction sig (emacs_sigaction_init Deliver_user_signal w) w"

text \<open>\<^verbatim>\<open>init_signals\<close>, with the signals that GNU/Linux defines, in the order of the source.\<close>

definition init_signals :: "'a world_scheme env \<Rightarrow> 'a world_scheme \<Rightarrow> 'a world_scheme" where
  "init_signals E w0 =
     (let w = w0\<lparr>empty_mask := {}\<rparr>;
          w = w\<lparr>main_thread_id := pthread_self w\<rparr>;
          w = w\<lparr>process_fatal_action :=
                  \<lparr>sa_handler = Deliver_fatal_signal, sa_mask = UNIV,
                   sa_flags = emacs_sigaction_flags w\<rparr>\<rparr>;
          thread_fatal_action =
            \<lparr>sa_handler = Deliver_fatal_thread_signal, sa_mask = UNIV,
             sa_flags = sa_flags (process_fatal_action w)\<rparr>;
          w = maybe_fatal_sig SIGHUP w;
          w = maybe_fatal_sig SIGINT w;
          w = maybe_fatal_sig SIGTERM w;
          w = (if \<not> noninteractive w then signal_c SIGPIPE SIG_IGN w else w);
          w = sigaction SIGQUIT (process_fatal_action w) w;
          w = sigaction SIGILL thread_fatal_action w;
          w = sigaction SIGTRAP thread_fatal_action w;
          w = (if IEEE_FLOATING_POINT then sigaction SIGFPE thread_fatal_action w
               else sigaction SIGFPE (emacs_sigaction_init Deliver_arith_signal w) w);
          w = add_user_signal SIGUSR1 w;
          w = add_user_signal SIGUSR2 w;
          w = sigaction SIGABRT thread_fatal_action w;
          w = sigaction SIGIOT thread_fatal_action w;
          w = sigaction SIGBUS thread_fatal_action w;
          w = (case init_sigsegv E w of (ok, w1) \<Rightarrow>
                 if \<not> ok then sigaction SIGSEGV thread_fatal_action w1 else w1);
          w = sigaction SIGSYS thread_fatal_action w;
          w = sigaction SIGTERM (process_fatal_action w) w;
          w = signal_c SIGPROF SIG_IGN w;
          w = sigaction SIGVTALRM (process_fatal_action w) w;
          w = sigaction SIGXCPU (process_fatal_action w) w;
          w = sigaction SIGXFSZ (process_fatal_action w) w
      in w)"

section \<open>The foreground process group\<close>

definition block_tty_out_signal ::
  "'a world_scheme env \<Rightarrow> 'a world_scheme \<Rightarrow> signal set \<times> 'a world_scheme" where
  "block_tty_out_signal E w = (let blocked = {SIGTTOU} in os_pthread_sigmask E SIG_BLOCK blocked w)"

definition unblock_tty_out_signal ::
  "'a world_scheme env \<Rightarrow> signal set \<Rightarrow> 'a world_scheme \<Rightarrow> 'a world_scheme" where
  "unblock_tty_out_signal E oldset w = snd (os_pthread_sigmask E SIG_SETMASK oldset w)"

definition tcsetpgrp_without_stopping ::
  "'a world_scheme env \<Rightarrow> int \<Rightarrow> int \<Rightarrow> 'a world_scheme \<Rightarrow> 'a world_scheme" where
  "tcsetpgrp_without_stopping E fd pgid w =
     (let w1 = block_input E w in
      case block_tty_out_signal E w1 of (oldset, w2) \<Rightarrow>
        (let w3 = snd (os_tcsetpgrp E fd pgid w2);
             w4 = unblock_tty_out_signal E oldset w3
         in unblock_input E w4))"

text \<open>
  \<^verbatim>\<open>&&\<close> evaluates \<^verbatim>\<open>setpgid\<close> only when \<^verbatim>\<open>inherited_pgroup\<close> is nonzero.
\<close>

definition narrow_foreground_group ::
  "'a world_scheme env \<Rightarrow> int \<Rightarrow> 'a world_scheme \<Rightarrow> 'a world_scheme" where
  "narrow_foreground_group E fd w =
     (if inherited_pgroup w \<noteq> 0
      then (case os_setpgid E 0 0 w of (r, w1) \<Rightarrow>
              if r = 0 then tcsetpgrp_without_stopping E fd (os_getpid E w1) w1 else w1)
      else w)"

definition widen_foreground_group ::
  "'a world_scheme env \<Rightarrow> int \<Rightarrow> 'a world_scheme \<Rightarrow> 'a world_scheme" where
  "widen_foreground_group E fd w =
     (if inherited_pgroup w \<noteq> 0
      then (case os_setpgid E 0 (inherited_pgroup w) w of (r, w1) \<Rightarrow>
              if r = 0 then tcsetpgrp_without_stopping E fd (inherited_pgroup w1) w1 else w1)
      else w)"

section \<open>Terminal modes\<close>

text \<open>\<^verbatim>\<open>memset (&t, 0, sizeof t)\<close> on a \<^verbatim>\<open>struct termios\<close>.\<close>

definition zero_termios :: termios where
  "zero_termios = \<lparr>c_iflag = 0, c_oflag = 0, c_cflag = 0, c_lflag = 0, c_cc = replicate NCCS 0\<rparr>"

definition emacs_get_tty ::
  "'a world_scheme env \<Rightarrow> int \<Rightarrow> 'a world_scheme \<Rightarrow> int \<times> emacs_tty \<times> 'a world_scheme" where
  "emacs_get_tty E fd w =
     (case os_tcgetattr E fd zero_termios w of (r, t, w1) \<Rightarrow> (r, \<lparr>main = t\<rparr>, w1))"

text \<open>
  \<^verbatim>\<open>emacs_set_tty\<close>: the \<^verbatim>\<open>for (i = 0; i < 10; i++)\<close> loop, and the \<^verbatim>\<open>return 0\<close> after it.
  Both \<^verbatim>\<open>continue\<close> statements go through \<^verbatim>\<open>i++\<close>.
\<close>

function emacs_set_tty_loop ::
  "'a world_scheme env \<Rightarrow> int \<Rightarrow> emacs_tty \<Rightarrow> bool \<Rightarrow> nat \<Rightarrow> 'a world_scheme \<Rightarrow> int \<times> 'a world_scheme" where
  "emacs_set_tty_loop E fd settings flushp i w =
     (if i < 10
      then
        (case os_tcsetattr E fd (if flushp then TCSAFLUSH else TCSADRAIN) (main settings) w of
           (r, w1) \<Rightarrow>
             if r < 0
             then (if errno w1 = EINTR
                   then emacs_set_tty_loop E fd settings flushp (i + 1) w1
                   else (- 1, w1))
             else
               (case os_tcgetattr E fd zero_termios w1 of (r2, new, w2) \<Rightarrow>
                  if c_iflag new = c_iflag (main settings)
                     \<and> c_oflag new = c_oflag (main settings)
                     \<and> c_cflag new = c_cflag (main settings)
                     \<and> c_lflag new = c_lflag (main settings)
                     \<and> take NCCS (c_cc new) = take NCCS (c_cc (main settings))
                  then (0, w2)
                  else emacs_set_tty_loop E fd settings flushp (i + 1) w2))
      else (0, w))"
  by pat_completeness auto
termination
  by (relation "measure (\<lambda>(E, fd, settings, flushp, i, w). 10 - i)") auto

declare emacs_set_tty_loop.simps [simp del]

definition emacs_set_tty ::
  "'a world_scheme env \<Rightarrow> int \<Rightarrow> emacs_tty \<Rightarrow> bool \<Rightarrow> 'a world_scheme \<Rightarrow> int \<times> 'a world_scheme" where
  "emacs_set_tty E fd settings flushp w = emacs_set_tty_loop E fd settings flushp 0 w"

text \<open>
  \<^verbatim>\<open>discard_tty_input\<close>: nothing when \<^verbatim>\<open>noninteractive\<close>; otherwise, for each device of
  \<^verbatim>\<open>tty_list\<close> whose \<^verbatim>\<open>input\<close> is not null, \<^verbatim>\<open>emacs_get_tty\<close> and then
  \<^verbatim>\<open>emacs_set_tty (fileno (tty->input), &buf, 0)\<close>.
\<close>

fun discard_tty_input_ttys ::
  "'a world_scheme env \<Rightarrow> tty_display_info list \<Rightarrow> 'a world_scheme \<Rightarrow> 'a world_scheme" where
  "discard_tty_input_ttys E [] w = w"
| "discard_tty_input_ttys E (tty # next) w =
     (case input tty of
        Some fd \<Rightarrow>
          (case emacs_get_tty E fd w of (r, buf, w1) \<Rightarrow>
             discard_tty_input_ttys E next (snd (emacs_set_tty E fd buf False w1)))
      | None \<Rightarrow> discard_tty_input_ttys E next w)"

definition discard_tty_input :: "'a world_scheme env \<Rightarrow> 'a world_scheme \<Rightarrow> 'a world_scheme" where
  "discard_tty_input E w =
     (if noninteractive w then w else discard_tty_input_ttys E (tty_list w) w)"

section \<open>Waiting for a child\<close>





section \<open>Retrying input and output\<close>

subsection \<open>Opening\<close>

definition sys_openat ::
  "'a world_scheme env \<Rightarrow> int \<Rightarrow> string \<Rightarrow> int \<Rightarrow> int \<Rightarrow> 'a world_scheme \<Rightarrow> int \<times> 'a world_scheme" where
  "sys_openat E dirfd file oflags mode w = os_openat E dirfd file oflags mode w"

text \<open>The \<^verbatim>\<open>while\<close> loop of \<^verbatim>\<open>emacs_openat\<close>, whose body is \<^verbatim>\<open>maybe_quit ()\<close>.\<close>

partial_function (option) emacs_openat_loop ::
  "'a world_scheme env \<Rightarrow> int \<Rightarrow> string \<Rightarrow> int \<Rightarrow> int \<Rightarrow> 'a world_scheme \<Rightarrow>
   (int, 'a world_scheme) outcome option" where
  "emacs_openat_loop E dirfd file oflags mode w =
     (case sys_openat E dirfd file oflags mode w of (fd, w1) \<Rightarrow>
        if fd < 0 \<and> errno w1 = EINTR
        then (case maybe_quit E w1 of
                NonLocalExit k w2 \<Rightarrow> Some (NonLocalExit k w2)
              | Return u w2 \<Rightarrow> emacs_openat_loop E dirfd file oflags mode w2)
        else Some (Return fd w1))"

definition emacs_openat ::
  "'a world_scheme env \<Rightarrow> int \<Rightarrow> string \<Rightarrow> int \<Rightarrow> int \<Rightarrow> 'a world_scheme \<Rightarrow>
   (int, 'a world_scheme) outcome option" where
  "emacs_openat E dirfd file oflags mode w =
     (let oflags = (if (oflags AND O_TEXT) = 0 then oflags OR O_BINARY else oflags);
          oflags = oflags OR O_CLOEXEC
      in emacs_openat_loop E dirfd file oflags mode w)"

definition emacs_open ::
  "'a world_scheme env \<Rightarrow> string \<Rightarrow> int \<Rightarrow> int \<Rightarrow> 'a world_scheme \<Rightarrow>
   (int, 'a world_scheme) outcome option" where
  "emacs_open E file oflags mode w = emacs_openat E AT_FDCWD file oflags mode w"

subsection \<open>Closing\<close>




subsection \<open>Reading\<close>

text \<open>The \<^verbatim>\<open>do ... while (result < 0 && errno == EINTR)\<close> loop of \<^verbatim>\<open>emacs_intr_read\<close>.\<close>

partial_function (option) emacs_intr_read_loop ::
  "'a world_scheme env \<Rightarrow> int \<Rightarrow> int \<Rightarrow> int \<Rightarrow> bool \<Rightarrow> 'a world_scheme \<Rightarrow>
   (int, 'a world_scheme) outcome option" where
  "emacs_intr_read_loop E fd buf nbyte interruptible w =
     (case (if interruptible then maybe_quit E w else Return () w) of
        NonLocalExit k w1 \<Rightarrow> Some (NonLocalExit k w1)
      | Return u w1 \<Rightarrow>
          (case os_read E fd buf nbyte w1 of (result, w2) \<Rightarrow>
             if result < 0 \<and> errno w2 = EINTR
             then emacs_intr_read_loop E fd buf nbyte interruptible w2
             else Some (Return result w2)))"

definition emacs_intr_read ::
  "'a world_scheme env \<Rightarrow> int \<Rightarrow> int \<Rightarrow> int \<Rightarrow> bool \<Rightarrow> 'a world_scheme \<Rightarrow>
   (int, 'a world_scheme) outcome option" where
  "emacs_intr_read E fd buf nbyte interruptible w =
     (if ENABLE_CHECKING E \<and> \<not> nbyte \<le> MAX_RW_COUNT E then Some (NonLocalExit Die w)
      else emacs_intr_read_loop E fd buf nbyte interruptible w)"

definition emacs_read ::
  "'a world_scheme env \<Rightarrow> int \<Rightarrow> int \<Rightarrow> int \<Rightarrow> 'a world_scheme \<Rightarrow>
   (int, 'a world_scheme) outcome option" where
  "emacs_read E fd buf nbyte w = emacs_intr_read E fd buf nbyte False w"

definition emacs_read_quit ::
  "'a world_scheme env \<Rightarrow> int \<Rightarrow> int \<Rightarrow> int \<Rightarrow> 'a world_scheme \<Rightarrow>
   (int, 'a world_scheme) outcome option" where
  "emacs_read_quit E fd buf nbyte w = emacs_intr_read E fd buf nbyte True w"

subsection \<open>Writing\<close>

text \<open>
  The \<^verbatim>\<open>while (nbyte > 0)\<close> loop of \<^verbatim>\<open>emacs_full_write\<close>, with its three variables
  \<open>buf\<close>, \<open>nbyte\<close> and \<open>bytes_written\<close>.
\<close>

partial_function (option) emacs_full_write_loop ::
  "'a world_scheme env \<Rightarrow> int \<Rightarrow> int \<Rightarrow> int \<Rightarrow> int \<Rightarrow> int \<Rightarrow> 'a world_scheme \<Rightarrow>
   (int, 'a world_scheme) outcome option" where
  "emacs_full_write_loop E fd buf nbyte interruptible bytes_written w =
     (if nbyte > 0
      then
        (case os_write E fd buf (min nbyte (MAX_RW_COUNT E)) w of (n, w1) \<Rightarrow>
           if n < 0
           then
             (if errno w1 \<noteq> EINTR then Some (Return bytes_written w1)
              else if interruptible \<noteq> 0
              then
                (case (if 0 < interruptible then maybe_quit E w1 else Return () w1) of
                   NonLocalExit k w2 \<Rightarrow> Some (NonLocalExit k w2)
                 | Return u w2 \<Rightarrow>
                     (case (if pending_signals w2 then process_pending_signals E w2
                            else Return () w2) of
                        NonLocalExit k w3 \<Rightarrow> Some (NonLocalExit k w3)
                      | Return u w3 \<Rightarrow>
                          emacs_full_write_loop E fd buf nbyte interruptible bytes_written w3))
              else emacs_full_write_loop E fd buf nbyte interruptible bytes_written w1)
           else
             emacs_full_write_loop E fd (buf + n) (nbyte - n) interruptible (bytes_written + n) w1)
      else Some (Return bytes_written w))"

definition emacs_full_write ::
  "'a world_scheme env \<Rightarrow> int \<Rightarrow> int \<Rightarrow> int \<Rightarrow> int \<Rightarrow> 'a world_scheme \<Rightarrow>
   (int, 'a world_scheme) outcome option" where
  "emacs_full_write E fd buf nbyte interruptible w =
     emacs_full_write_loop E fd buf nbyte interruptible 0 w"

definition emacs_write ::
  "'a world_scheme env \<Rightarrow> int \<Rightarrow> int \<Rightarrow> int \<Rightarrow> 'a world_scheme \<Rightarrow>
   (int, 'a world_scheme) outcome option" where
  "emacs_write E fd buf nbyte w = emacs_full_write E fd buf nbyte 0 w"

definition emacs_write_sig ::
  "'a world_scheme env \<Rightarrow> int \<Rightarrow> int \<Rightarrow> int \<Rightarrow> 'a world_scheme \<Rightarrow>
   (int, 'a world_scheme) outcome option" where
  "emacs_write_sig E fd buf nbyte w = emacs_full_write E fd buf nbyte (- 1) w"

definition emacs_write_quit ::
  "'a world_scheme env \<Rightarrow> int \<Rightarrow> int \<Rightarrow> int \<Rightarrow> 'a world_scheme \<Rightarrow>
   (int, 'a world_scheme) outcome option" where
  "emacs_write_quit E fd buf nbyte w = emacs_full_write E fd buf nbyte 1 w"

section \<open>A simulated operating system\<close>

text \<open>
  To run the functions on concrete inputs, and to see which system calls they make,
  this environment replays a script: each system call takes the next entry
  \<open>(r, e)\<close>, returns \<open>r\<close> and, when \<open>r\<close> is negative, sets \<^verbatim>\<open>errno\<close> to \<open>e\<close>; when the
  script is used up the call fails with \<^verbatim>\<open>EIO\<close>. Every call is recorded with its
  arguments. \<open>os_tcgetattr\<close> succeeds and hands back the next entry of \<open>readbacks\<close>, or
  fails and leaves the structure alone when there is none. A descriptor leaves
  \<open>open_fds\<close> when \<open>os_close\<close> succeeds, and on a failing close only if
  \<open>close_releases_on_error\<close> holds (as on GNU/Linux; on HP-UX an interrupted close
  leaves the descriptor open, see the comment of \<^verbatim>\<open>posix_close\<close>). \<open>maybe_quit\<close> quits
  when \<open>quit_flag\<close> is set.
\<close>

datatype syscall =
    Sys_read int int int
  | Sys_write int int int
  | Sys_openat int string int int
  | Sys_close int
  | Sys_waitpid int bool int
  | Sys_tcsetattr int optional_actions termios
  | Sys_tcgetattr int
  | Sys_tcsetpgrp int int
  | Sys_setpgid int int
  | Sys_pthread_sigmask sigmask_how "signal set"
  | Sys_pthread_kill nat signal
  | Sys_sigaltstack

record sim = world +
  script :: "(int \<times> int) list"
  calls :: "syscall list"
  readbacks :: "termios list"
  open_fds :: "int set"
  close_releases_on_error :: bool
  quit_flag :: bool

definition sim_call :: "syscall \<Rightarrow> sim \<Rightarrow> int \<times> sim" where
  "sim_call c w =
     (case script w of
        [] \<Rightarrow> (- 1, w\<lparr>errno := EIO, calls := calls w @ [c]\<rparr>)
      | (r, e) # rest \<Rightarrow>
          (r, w\<lparr>errno := (if r < 0 then e else errno w), script := rest,
                calls := calls w @ [c]\<rparr>))"

definition sim_close :: "int \<Rightarrow> sim \<Rightarrow> int \<times> sim" where
  "sim_close fd w =
     (case sim_call (Sys_close fd) w of (r, w1) \<Rightarrow>
        (r, if r = 0 \<or> close_releases_on_error w1
            then w1\<lparr>open_fds := open_fds w1 - {fd}\<rparr> else w1))"

definition sim_tcgetattr :: "int \<Rightarrow> termios \<Rightarrow> sim \<Rightarrow> int \<times> termios \<times> sim" where
  "sim_tcgetattr fd t w =
     (case readbacks w of
        [] \<Rightarrow> (- 1, t, w\<lparr>errno := EIO, calls := calls w @ [Sys_tcgetattr fd]\<rparr>)
      | t' # rest \<Rightarrow> (0, t', w\<lparr>readbacks := rest, calls := calls w @ [Sys_tcgetattr fd]\<rparr>))"

definition sim_maybe_quit :: "sim \<Rightarrow> (unit, sim) outcome" where
  "sim_maybe_quit w = (if quit_flag w then NonLocalExit Quit w else Return () w)"

definition sim_env :: "sim env" where
  "sim_env =
     \<lparr>os_read = (\<lambda>fd buf nbyte. sim_call (Sys_read fd buf nbyte)),
      os_write = (\<lambda>fd buf nbyte. sim_call (Sys_write fd buf nbyte)),
      os_openat = (\<lambda>dirfd file oflags mode. sim_call (Sys_openat dirfd file oflags mode)),
      os_close = sim_close,
      os_waitpid = (\<lambda>pid status options. sim_call (Sys_waitpid pid status options)),
      os_tcsetattr = (\<lambda>fd act t. sim_call (Sys_tcsetattr fd act t)),
      os_tcgetattr = sim_tcgetattr,
      os_tcsetpgrp = (\<lambda>fd pgid. sim_call (Sys_tcsetpgrp fd pgid)),
      os_setpgid = (\<lambda>pid pgid. sim_call (Sys_setpgid pid pgid)),
      os_getpid = (\<lambda>w. 4242),
      os_pthread_sigmask =
        (\<lambda>how set w. ({}, w\<lparr>calls := calls w @ [Sys_pthread_sigmask how set]\<rparr>)),
      os_pthread_kill = (\<lambda>thread sig. sim_call (Sys_pthread_kill thread sig)),
      os_sigaltstack = sim_call Sys_sigaltstack,
      maybe_quit = sim_maybe_quit,
      process_pending_signals = (\<lambda>w. Return () (w\<lparr>pending_signals := False\<rparr>)),
      block_input = (\<lambda>w. w),
      unblock_input = (\<lambda>w. w),
      MAX_RW_COUNT = 2147221504,
      ENABLE_CHECKING = False\<rparr>"

text \<open>
  An interactive session on the main thread, with one open tty on descriptor 0, default
  dispositions, an 8 MiB stack growing downwards from \<open>0x7fff00000000\<close>, and an empty
  script.
\<close>

definition sim_start :: sim where
  "sim_start =
     \<lparr>errno = 0, noninteractive = False, pending_signals = False,
      gc_in_progress = False, attempt_stack_overflow_recovery = True,
      stack_bottom = 0x7fff00000000, stack_top = 0x7ffeff800000,
      pthread_self = 1, main_thread_id = 1, inherited_pgroup = 0,
      tty_list = [\<lparr>input = Some 0\<rparr>],
      sigtable = (\<lambda>sig. \<lparr>sa_handler = SIG_DFL, sa_mask = {}, sa_flags = {}\<rparr>),
      process_fatal_action = \<lparr>sa_handler = Deliver_fatal_signal, sa_mask = UNIV, sa_flags = {}\<rparr>,
      empty_mask = {}, input_available_clear_time = None,
      script = [], calls = [], readbacks = [], open_fds = {0, 1, 2},
      close_releases_on_error = True, quit_flag = False\<rparr>"

section \<open>Describing what the primitives do\<close>

text \<open>
  \<open>eintr_times prim N w = Some wN\<close>: called again and again from the state \<open>w\<close>, the
  primitive fails with \<^verbatim>\<open>EINTR\<close> the first \<open>N\<close> times, and leaves the state \<open>wN\<close>.
\<close>

fun eintr_times ::
  "('a world_scheme \<Rightarrow> int \<times> 'a world_scheme) \<Rightarrow> nat \<Rightarrow> 'a world_scheme \<Rightarrow> 'a world_scheme option" where
  "eintr_times prim 0 w = Some w"
| "eintr_times prim (Suc n) w =
     (case prim w of (r, w1) \<Rightarrow>
        if r < 0 \<and> errno w1 = EINTR then eintr_times prim n w1 else None)"

text \<open>
  The same, with a quit check after each interruption that returns normally each time.
\<close>

fun eintr_quit_times ::
  "('a world_scheme \<Rightarrow> (unit, 'a world_scheme) outcome) \<Rightarrow>
   ('a world_scheme \<Rightarrow> int \<times> 'a world_scheme) \<Rightarrow> nat \<Rightarrow> 'a world_scheme \<Rightarrow> 'a world_scheme option" where
  "eintr_quit_times quit prim 0 w = Some w"
| "eintr_quit_times quit prim (Suc n) w =
     (case prim w of (r, w1) \<Rightarrow>
        if r < 0 \<and> errno w1 = EINTR
        then (case quit w1 of
                Return u w2 \<Rightarrow> eintr_quit_times quit prim n w2
              | NonLocalExit k w2 \<Rightarrow> None)
        else None)"


text \<open>How a call ends, without the state: the exit taken, or the value returned.\<close>

fun verdict :: "('a, 'w) outcome \<Rightarrow> exit_kind + 'a" where
  "verdict (Return x w) = Inr x"
| "verdict (NonLocalExit k w) = Inl k"

text \<open>
  What the terminal answers to \<open>n\<close> rounds of \<^verbatim>\<open>tcsetattr\<close> followed, when it succeeds,
  by \<^verbatim>\<open>tcgetattr\<close> into a zeroed structure: per round, the error of the failed set call,
  or the attributes read back.
\<close>

datatype tty_answer = Set_failed int | Read_back termios

fun tty_answers ::
  "'a world_scheme env \<Rightarrow> int \<Rightarrow> optional_actions \<Rightarrow> termios \<Rightarrow> nat \<Rightarrow> 'a world_scheme \<Rightarrow>
   tty_answer list" where
  "tty_answers E fd act t 0 w = []"
| "tty_answers E fd act t (Suc n) w =
     (case os_tcsetattr E fd act t w of (r, w1) \<Rightarrow>
        if r < 0 then Set_failed (errno w1) # tty_answers E fd act t n w1
        else (case os_tcgetattr E fd zero_termios w1 of (r2, new, w2) \<Rightarrow>
                Read_back new # tty_answers E fd act t n w2))"

text \<open>The state after those \<open>n\<close> rounds.\<close>

fun tty_rounds ::
  "'a world_scheme env \<Rightarrow> int \<Rightarrow> optional_actions \<Rightarrow> termios \<Rightarrow> nat \<Rightarrow> 'a world_scheme \<Rightarrow>
   'a world_scheme" where
  "tty_rounds E fd act t 0 w = w"
| "tty_rounds E fd act t (Suc n) w =
     (case os_tcsetattr E fd act t w of (r, w1) \<Rightarrow>
        if r < 0 then tty_rounds E fd act t n w1
        else (case os_tcgetattr E fd zero_termios w1 of (r2, new, w2) \<Rightarrow>
                tty_rounds E fd act t n w2))"

text \<open>The readback has the requested flags and control characters.\<close>

definition same_attributes :: "termios \<Rightarrow> termios \<Rightarrow> bool" where
  "same_attributes new t =
     (c_iflag new = c_iflag t \<and> c_oflag new = c_oflag t \<and> c_cflag new = c_cflag t
      \<and> c_lflag new = c_lflag t \<and> take NCCS (c_cc new) = take NCCS (c_cc t))"

text \<open>An answer after which the loop of \<^verbatim>\<open>emacs_set_tty\<close> must go round again.\<close>

fun retried :: "termios \<Rightarrow> tty_answer \<Rightarrow> bool" where
  "retried t (Set_failed e) = (e = EINTR)"
| "retried t (Read_back new) = (\<not> same_attributes new t)"

section \<open>Evaluating the simulation\<close>

lemmas sim_simps = sim_env_def sim_call_def sim_close_def sim_tcgetattr_def sim_maybe_quit_def
  sim_start_def EINTR_def EIO_def

lemma sim_env_sel:
  "os_read sim_env = (\<lambda>fd buf nbyte. sim_call (Sys_read fd buf nbyte))"
  "os_write sim_env = (\<lambda>fd buf nbyte. sim_call (Sys_write fd buf nbyte))"
  "os_openat sim_env = (\<lambda>dirfd file oflags mode. sim_call (Sys_openat dirfd file oflags mode))"
  "os_close sim_env = sim_close"
  "os_waitpid sim_env = (\<lambda>pid status options. sim_call (Sys_waitpid pid status options))"
  "os_tcsetattr sim_env = (\<lambda>fd act t. sim_call (Sys_tcsetattr fd act t))"
  "os_tcgetattr sim_env = sim_tcgetattr"
  "os_sigaltstack sim_env = sim_call Sys_sigaltstack"
  "maybe_quit sim_env = sim_maybe_quit"
  "process_pending_signals sim_env = (\<lambda>w. Return () (w\<lparr>pending_signals := False\<rparr>))"
  "MAX_RW_COUNT sim_env = 2147221504"
  "ENABLE_CHECKING sim_env = False"
  by (simp_all add: sim_env_def)


section \<open>Signal delivery keeps errno\<close>

text \<open>
  Claim C10. For every signal and handler, \<^verbatim>\<open>deliver_process_signal\<close> and
  \<^verbatim>\<open>deliver_thread_signal\<close> leave \<^verbatim>\<open>errno\<close> as they found it: whenever either one
  returns, \<^verbatim>\<open>errno\<close> has its value on entry, whatever the handler, \<^verbatim>\<open>pthread_sigmask\<close>
  or \<^verbatim>\<open>pthread_kill\<close> did to it. Off the main thread \<^verbatim>\<open>deliver_process_signal\<close>
  always returns and \<^verbatim>\<open>deliver_thread_signal\<close> never does; on the main thread both
  return exactly when the handler returns.
\<close>

theorem deliver_signal_preserves_errno:
  "(\<forall>u w'. deliver_process_signal E sig handler w = Return u w' \<longrightarrow> errno w' = errno w)
   \<and> (\<forall>u w'. deliver_thread_signal E sig handler w = Return u w' \<longrightarrow> errno w' = errno w)
   \<and> (pthread_self w \<noteq> main_thread_id w \<longrightarrow>
        (\<exists>w'. deliver_process_signal E sig handler w = Return () w')
        \<and> (\<exists>w'. deliver_thread_signal E sig handler w = NonLocalExit Suspend w'))
   \<and> (\<forall>w1. pthread_self w = main_thread_id w \<and> handler sig w = Return () w1 \<longrightarrow>
        deliver_process_signal E sig handler w = Return () (w1\<lparr>errno := errno w\<rparr>)
        \<and> deliver_thread_signal E sig handler w = Return () (w1\<lparr>errno := errno w\<rparr>))"
  by (auto simp: deliver_process_signal_def deliver_thread_signal_def Let_def
      split: if_splits outcome.splits)

theorem deliver_signal_preserves_errno_witness:
  "deliver_process_signal sim_env SIGHUP (\<lambda>sig w. Return () (w\<lparr>errno := EIO\<rparr>))
       (sim_start\<lparr>errno := 11\<rparr>)
     = Return () (sim_start\<lparr>errno := 11\<rparr>)
   \<and> deliver_thread_signal sim_env SIGHUP (\<lambda>sig w. Return () (w\<lparr>errno := EIO\<rparr>))
       (sim_start\<lparr>errno := 11\<rparr>)
     = Return () (sim_start\<lparr>errno := 11\<rparr>)
   \<and> errno (sim_start\<lparr>errno := 11\<rparr>) = 11"
  using deliver_signal_preserves_errno
    [of sim_env SIGHUP "\<lambda>sig w. Return () (w\<lparr>errno := EIO\<rparr>)" "sim_start\<lparr>errno := 11\<rparr>"]
  by (simp add: sim_start_def)

section \<open>Narrowing and widening the foreground group\<close>

text \<open>
  Claim C9. When \<^verbatim>\<open>inherited_pgroup\<close> is 0, \<^verbatim>\<open>narrow_foreground_group\<close> and
  \<^verbatim>\<open>widen_foreground_group\<close> change nothing: the whole state, the operating system's
  included, is the same afterwards (no system call is made, so none can fail), and
  narrowing twice is the same as narrowing once.
\<close>

theorem foreground_group_noop:
  "inherited_pgroup w = 0 \<Longrightarrow>
     narrow_foreground_group E fd w = w
     \<and> widen_foreground_group E fd w = w
     \<and> narrow_foreground_group E fd (narrow_foreground_group E fd w)
         = narrow_foreground_group E fd w"
  by (simp add: narrow_foreground_group_def widen_foreground_group_def)

theorem foreground_group_noop_witness:
  "inherited_pgroup sim_start = 0
   \<and> narrow_foreground_group sim_env 0 sim_start = sim_start
   \<and> widen_foreground_group sim_env 0 sim_start = sim_start
   \<and> narrow_foreground_group sim_env 0 (narrow_foreground_group sim_env 0 sim_start) = sim_start"
  using foreground_group_noop [of sim_start sim_env 0]
  by (simp add: sim_start_def)

text \<open>
  With a nonzero \<^verbatim>\<open>inherited_pgroup\<close> the two functions do act: \<^verbatim>\<open>setpgid\<close>, then
  \<^verbatim>\<open>tcsetpgrp\<close> between blocking and unblocking \<^verbatim>\<open>SIGTTOU\<close>, and nothing after a failed
  \<^verbatim>\<open>setpgid\<close>.
\<close>

lemma narrow_foreground_group_splits:
  "calls (narrow_foreground_group sim_env 0
            (sim_start\<lparr>inherited_pgroup := 77, script := [(0, 0), (0, 0)]\<rparr>))
     = [Sys_setpgid 0 0, Sys_pthread_sigmask SIG_BLOCK {SIGTTOU}, Sys_tcsetpgrp 0 4242,
        Sys_pthread_sigmask SIG_SETMASK {}]
   \<and> calls (widen_foreground_group sim_env 0
            (sim_start\<lparr>inherited_pgroup := 77, script := [(0, 0), (0, 0)]\<rparr>))
     = [Sys_setpgid 0 77, Sys_pthread_sigmask SIG_BLOCK {SIGTTOU}, Sys_tcsetpgrp 0 77,
        Sys_pthread_sigmask SIG_SETMASK {}]
   \<and> calls (narrow_foreground_group sim_env 0
            (sim_start\<lparr>inherited_pgroup := 77, script := [(- 1, 1)]\<rparr>))
     = [Sys_setpgid 0 0]"
  by (simp add: sim_simps narrow_foreground_group_def widen_foreground_group_def
      tcsetpgrp_without_stopping_def block_tty_out_signal_def unblock_tty_out_signal_def Let_def)

section \<open>The decision of the SIGSEGV handler\<close>

text \<open>
  The heuristic in plain numbers, when no pointer difference overflows: on a stack that
  grows downwards (\<open>top \<le> bot\<close>) a fault at or below the top is an overflow exactly when
  its distance from the top is less than a 256th of the known extent, and likewise
  above the top of a stack that grows upwards.
\<close>

lemma sint_sub_small:
  fixes a b :: "64 word"
  assumes "b \<le> a" and "unat a - unat b < 2 ^ 63"
  shows "sint (a - b) = int (unat a - unat b)"
proof -
  have u: "uint (a - b) = int (unat a - unat b)"
    using unat_sub [OF assms(1)] by (metis uint_nat)
  have "uint (a - b) < 2 ^ 63"
    using assms(2) u by simp
  moreover have "- (2 ^ 63) \<le> uint (a - b)"
    by (rule order_trans [OF _ uint_ge_0]) simp
  ultimately have "signed_take_bit 63 (uint (a - b)) = uint (a - b)"
    by (simp add: signed_take_bit_int_eq_self)
  then show ?thesis
    using u by (simp add: sint_uint)
qed

lemma stack_overflow_below_top:
  assumes "attempt_stack_overflow_recovery w" and "addr \<noteq> 0"
    and "stack_top w \<le> stack_bottom w" and "addr \<le> stack_top w"
    and "unat (stack_bottom w) - unat (stack_top w) < 2 ^ 63"
    and "unat (stack_top w) - unat addr < 2 ^ 63"
  shows "stack_overflow (Some \<lparr>si_addr = addr\<rparr>) w
     \<longleftrightarrow> unat (stack_top w) - unat addr < (unat (stack_bottom w) - unat (stack_top w)) div 256"
proof -
  have a: "sint (stack_top w - addr) = int (unat (stack_top w) - unat addr)"
    using assms(4,6) by (rule sint_sub_small)
  have b: "sint (stack_bottom w - stack_top w) = int (unat (stack_bottom w) - unat (stack_top w))"
    using assms(3,5) by (rule sint_sub_small)
  have nb: "\<not> stack_bottom w < stack_top w" using assms(3) by simp
  have "int (unat (stack_top w) - unat addr)
      < int (unat (stack_bottom w) - unat (stack_top w)) div 256
     \<longleftrightarrow> unat (stack_top w) - unat addr < (unat (stack_bottom w) - unat (stack_top w)) div 256"
    by (metis of_nat_less_iff of_nat_numeral zdiv_int)
  then show ?thesis
    using assms(1,2) nb
    by (simp add: stack_overflow_def Let_def a b LG_STACK_HEURISTIC_def drop_bit_eq_div)
qed

lemma stack_overflow_above_top:
  assumes "attempt_stack_overflow_recovery w" and "addr \<noteq> 0"
    and "stack_bottom w < stack_top w" and "stack_top w \<le> addr"
    and "unat (stack_top w) - unat (stack_bottom w) < 2 ^ 63"
    and "unat addr - unat (stack_top w) < 2 ^ 63"
  shows "stack_overflow (Some \<lparr>si_addr = addr\<rparr>) w
     \<longleftrightarrow> unat addr - unat (stack_top w) < (unat (stack_top w) - unat (stack_bottom w)) div 256"
proof -
  have a: "sint (addr - stack_top w) = int (unat addr - unat (stack_top w))"
    using assms(4,6) by (rule sint_sub_small)
  have le: "stack_bottom w \<le> stack_top w" using assms(3) by simp
  have b: "sint (stack_top w - stack_bottom w) = int (unat (stack_top w) - unat (stack_bottom w))"
    using le assms(5) by (rule sint_sub_small)
  have "int (unat addr - unat (stack_top w))
      < int (unat (stack_top w) - unat (stack_bottom w)) div 256
     \<longleftrightarrow> unat addr - unat (stack_top w) < (unat (stack_top w) - unat (stack_bottom w)) div 256"
    by (metis of_nat_less_iff of_nat_numeral zdiv_int)
  then show ?thesis
    using assms(1,2,3)
    by (simp add: stack_overflow_def Let_def a b LG_STACK_HEURISTIC_def drop_bit_eq_div)
qed

lemma deliver_fatal_thread_signal_eq:
  "deliver_fatal_thread_signal E sig w =
     (if pthread_self w \<noteq> main_thread_id w
      then NonLocalExit Suspend
             (snd (os_pthread_kill E (main_thread_id w) sig
                     (sigaction sig (process_fatal_action w) w)))
      else NonLocalExit (Terminate sig) w)"
  by (simp add: deliver_fatal_thread_signal_def deliver_thread_signal_def Let_def
      handle_fatal_signal_def terminate_due_to_signal_def sigaction_def)

text \<open>
  Claim C2. \<^verbatim>\<open>handle_sigsegv\<close> jumps back to the command loop if and only if no
  garbage collection is in progress, the faulting thread is the main thread, recovery is
  not disabled, \<^verbatim>\<open>siginfo\<close> and its fault address are not null, and the address passes
  the heuristic: \<open>0 \<le> addr - top\<close> and \<open>addr - top < (top - bot) >> 8\<close> when
  \<open>bot < top\<close>, and the same with \<open>top - addr\<close> and \<open>bot - top\<close> otherwise, the upper
  bound strict. In every other case the fault goes to \<^verbatim>\<open>deliver_fatal_thread_signal\<close>,
  which ends the process on the main thread and suspends any other thread.
\<close>

theorem handle_sigsegv_recovers_iff:
  "((\<exists>w'. handle_sigsegv E sig siginfo w = NonLocalExit SigLongJmp w')
     \<longleftrightarrow>
       \<not> gc_in_progress w \<and> pthread_self w = main_thread_id w
       \<and> attempt_stack_overflow_recovery w
       \<and> (\<exists>si. siginfo = Some si \<and> si_addr si \<noteq> 0
            \<and> (if stack_bottom w < stack_top w
                then 0 \<le> sint (si_addr si - stack_top w)
                     \<and> sint (si_addr si - stack_top w)
                        < sint (stack_top w - stack_bottom w) div 2 ^ 8
                else 0 \<le> sint (stack_top w - si_addr si)
                     \<and> sint (stack_top w - si_addr si)
                        < sint (stack_bottom w - stack_top w) div 2 ^ 8)))
   \<and> ((\<forall>w'. handle_sigsegv E sig siginfo w \<noteq> NonLocalExit SigLongJmp w')
        \<longrightarrow> handle_sigsegv E sig siginfo w = deliver_fatal_thread_signal E sig w
            \<and> (\<exists>w'. deliver_fatal_thread_signal E sig w = NonLocalExit (Terminate sig) w'
                   \<or> deliver_fatal_thread_signal E sig w = NonLocalExit Suspend w'))"
  by (auto simp: handle_sigsegv_def stack_overflow_def Let_def deliver_fatal_thread_signal_eq
      LG_STACK_HEURISTIC_def drop_bit_eq_div split: option.splits if_splits)

text \<open>
  On the 8 MiB stack of \<open>sim_start\<close> the margin is 32768 bytes below the top: a fault
  32767 bytes below it is recovered, one 32768 bytes below it is fatal, and so is any
  fault during garbage collection.
\<close>

theorem handle_sigsegv_recovers_iff_witness:
  "handle_sigsegv sim_env SIGSEGV (Some \<lparr>si_addr = 0x7ffeff800000 - 32767\<rparr>) sim_start
     = NonLocalExit SigLongJmp sim_start
   \<and> handle_sigsegv sim_env SIGSEGV (Some \<lparr>si_addr = 0x7ffeff800000 - 32768\<rparr>) sim_start
     = NonLocalExit (Terminate SIGSEGV) sim_start
   \<and> handle_sigsegv sim_env SIGSEGV (Some \<lparr>si_addr = 0x7ffeff800000\<rparr>) sim_start
     = NonLocalExit SigLongJmp sim_start
   \<and> handle_sigsegv sim_env SIGSEGV (Some \<lparr>si_addr = 0x7ffeff800000 + 1\<rparr>) sim_start
     = NonLocalExit (Terminate SIGSEGV) sim_start
   \<and> handle_sigsegv sim_env SIGSEGV (Some \<lparr>si_addr = 0x7ffeff800000\<rparr>)
       (sim_start\<lparr>gc_in_progress := True\<rparr>)
     = NonLocalExit (Terminate SIGSEGV) (sim_start\<lparr>gc_in_progress := True\<rparr>)"
  using handle_sigsegv_recovers_iff
          [of sim_env SIGSEGV "Some \<lparr>si_addr = 0x7ffeff800000 - 32767\<rparr>" sim_start]
        handle_sigsegv_recovers_iff
          [of sim_env SIGSEGV "Some \<lparr>si_addr = 0x7ffeff800000 - 32768\<rparr>" sim_start]
  by (simp add: sim_start_def handle_sigsegv_def stack_overflow_def Let_def
      deliver_fatal_thread_signal_eq LG_STACK_HEURISTIC_def drop_bit_eq_div)

section \<open>Interrupted reads, writes and opens\<close>

subsection \<open>The loops, one interruption at a time\<close>

lemma read_loop_retry:
  "eintr_times (os_read E fd buf nbyte) N w = Some wN \<Longrightarrow>
   emacs_intr_read_loop E fd buf nbyte False w = emacs_intr_read_loop E fd buf nbyte False wN"
proof (induction N arbitrary: w)
  case 0
  then show ?case by simp
next
  case (Suc N)
  obtain r w1 where p: "os_read E fd buf nbyte w = (r, w1)"
    by (cases "os_read E fd buf nbyte w")
  with Suc.prems have f: "r < 0 \<and> errno w1 = EINTR"
    and e: "eintr_times (os_read E fd buf nbyte) N w1 = Some wN"
    by (auto split: if_splits)
  have "emacs_intr_read_loop E fd buf nbyte False w = emacs_intr_read_loop E fd buf nbyte False w1"
    by (subst emacs_intr_read_loop.simps) (simp add: p f)
  with Suc.IH [OF e] show ?case by simp
qed

lemma read_loop_first:
  "os_read E fd buf nbyte w = (r, w') \<Longrightarrow> \<not> (r < 0 \<and> errno w' = EINTR) \<Longrightarrow>
   emacs_intr_read_loop E fd buf nbyte False w = Some (Return r w')"
  by (subst emacs_intr_read_loop.simps) auto

lemma read_loop_result:
  "emacs_intr_read_loop E fd buf nbyte i w = Some y \<Longrightarrow>
   (\<forall>r w'. y = Return r w' \<longrightarrow>
      \<not> (r < 0 \<and> errno w' = EINTR) \<and> (\<exists>w0. os_read E fd buf nbyte w0 = (r, w')))"
  by (induct rule: emacs_intr_read_loop.raw_induct[rotated 1, consumes 1])
     (auto split: outcome.splits if_splits prod.splits)

lemma write_loop_retry:
  "eintr_times (os_write E fd buf (min nbyte (MAX_RW_COUNT E))) N w = Some wN \<Longrightarrow> 0 < nbyte \<Longrightarrow>
   emacs_full_write_loop E fd buf nbyte 0 bw w = emacs_full_write_loop E fd buf nbyte 0 bw wN"
proof (induction N arbitrary: w)
  case 0
  then show ?case by simp
next
  case (Suc N)
  obtain r w1 where p: "os_write E fd buf (min nbyte (MAX_RW_COUNT E)) w = (r, w1)"
    by (cases "os_write E fd buf (min nbyte (MAX_RW_COUNT E)) w")
  with Suc.prems have f: "r < 0 \<and> errno w1 = EINTR"
    and e: "eintr_times (os_write E fd buf (min nbyte (MAX_RW_COUNT E))) N w1 = Some wN"
    by (auto split: if_splits)
  have "emacs_full_write_loop E fd buf nbyte 0 bw w = emacs_full_write_loop E fd buf nbyte 0 bw w1"
    by (subst emacs_full_write_loop.simps) (simp add: p f Suc.prems)
  with Suc.IH [OF e Suc.prems(2)] show ?case by simp
qed

lemma write_loop_result:
  "emacs_full_write_loop E fd buf nbyte i bw w = Some y \<Longrightarrow>
   (\<forall>n w'. y = Return n w' \<longrightarrow>
      (n < bw + nbyte \<longrightarrow>
         errno w' \<noteq> EINTR \<and> (\<exists>buf' k w0 r. os_write E fd buf' k w0 = (r, w') \<and> r < 0)))"
  by (induct rule: emacs_full_write_loop.raw_induct[rotated 1, consumes 1])
     (auto split: outcome.splits if_splits prod.splits)

lemma openat_loop_retry:
  "eintr_quit_times (maybe_quit E) (os_openat E dirfd file oflags mode) N w = Some wN \<Longrightarrow>
   emacs_openat_loop E dirfd file oflags mode w = emacs_openat_loop E dirfd file oflags mode wN"
proof (induction N arbitrary: w)
  case 0
  then show ?case by simp
next
  case (Suc N)
  obtain r w1 where p: "os_openat E dirfd file oflags mode w = (r, w1)"
    by (cases "os_openat E dirfd file oflags mode w")
  with Suc.prems have f: "r < 0 \<and> errno w1 = EINTR" by (auto split: if_splits)
  with p Suc.prems obtain w2 where q: "maybe_quit E w1 = Return () w2"
    and e: "eintr_quit_times (maybe_quit E) (os_openat E dirfd file oflags mode) N w2 = Some wN"
    by (auto split: if_splits outcome.splits)
  have "emacs_openat_loop E dirfd file oflags mode w = emacs_openat_loop E dirfd file oflags mode w2"
    by (subst emacs_openat_loop.simps) (simp add: p f q sys_openat_def)
  with Suc.IH [OF e] show ?case by simp
qed

lemma openat_loop_first:
  "os_openat E dirfd file oflags mode w = (r, w') \<Longrightarrow> \<not> (r < 0 \<and> errno w' = EINTR) \<Longrightarrow>
   emacs_openat_loop E dirfd file oflags mode w = Some (Return r w')"
  by (subst emacs_openat_loop.simps) (auto simp: sys_openat_def)

lemma openat_loop_quit:
  "os_openat E dirfd file oflags mode w = (r, w1) \<Longrightarrow> r < 0 \<Longrightarrow> errno w1 = EINTR \<Longrightarrow>
   maybe_quit E w1 = NonLocalExit k w2 \<Longrightarrow>
   emacs_openat_loop E dirfd file oflags mode w = Some (NonLocalExit k w2)"
  by (subst emacs_openat_loop.simps) (auto simp: sys_openat_def)

lemma openat_loop_result:
  "emacs_openat_loop E dirfd file oflags mode w = Some y \<Longrightarrow>
   (\<forall>r w'. y = Return r w' \<longrightarrow>
      \<not> (r < 0 \<and> errno w' = EINTR) \<and> (\<exists>w0. os_openat E dirfd file oflags mode w0 = (r, w')))"
  by (induct rule: emacs_openat_loop.raw_induct[rotated 1, consumes 1])
     (auto simp: sys_openat_def split: outcome.splits if_splits prod.splits)

lemma emacs_open_eq:
  "emacs_open E file oflags mode w = emacs_openat_loop E AT_FDCWD file (oflags OR O_CLOEXEC) mode w"
  by (simp add: emacs_open_def emacs_openat_def O_TEXT_def O_BINARY_def Let_def)

subsection \<open>Retry transparency\<close>

text \<open>
  Claim C1, as amended. Let the underlying call fail with \<^verbatim>\<open>EINTR\<close> \<open>N\<close> times and then
  end otherwise. \<^verbatim>\<open>emacs_read\<close> and \<^verbatim>\<open>emacs_write\<close> then return what they return when the
  call ends that way at once. \<^verbatim>\<open>emacs_open\<close> does so too when \<^verbatim>\<open>maybe_quit\<close>, which it
  calls after each interrupted attempt, returns normally each time; when \<^verbatim>\<open>maybe_quit\<close>
  leaves by its non-local exit, \<^verbatim>\<open>emacs_open\<close> leaves with it and returns nothing. None
  of the three returns a failure with \<^verbatim>\<open>errno\<close> equal to \<^verbatim>\<open>EINTR\<close>: what \<^verbatim>\<open>emacs_read\<close>
  and \<^verbatim>\<open>emacs_open\<close> return is never negative with \<^verbatim>\<open>EINTR\<close>, and when \<^verbatim>\<open>emacs_write\<close>
  returns fewer than \<open>nbyte\<close> bytes, \<^verbatim>\<open>errno\<close> is not \<^verbatim>\<open>EINTR\<close>. (The read theorem asks
  that the \<^verbatim>\<open>eassert\<close> on \<open>nbyte\<close> passes or is compiled out.)
\<close>

theorem retry_transparency:
  "(\<forall>N wN r w'.
      eintr_times (os_read E fd buf nbyte) N w = Some wN
      \<and> os_read E fd buf nbyte wN = (r, w') \<and> \<not> (r < 0 \<and> errno w' = EINTR)
      \<and> (nbyte \<le> MAX_RW_COUNT E \<or> \<not> ENABLE_CHECKING E)
      \<longrightarrow> emacs_read E fd buf nbyte w = Some (Return r w')
          \<and> emacs_read E fd buf nbyte wN = Some (Return r w'))
   \<and> (\<forall>N wN.
      eintr_times (os_write E fd buf (min nbyte (MAX_RW_COUNT E))) N w = Some wN \<and> 0 < nbyte
      \<longrightarrow> emacs_write E fd buf nbyte w = emacs_write E fd buf nbyte wN)
   \<and> (\<forall>N wN r w'.
      eintr_quit_times (maybe_quit E) (os_openat E AT_FDCWD file (oflags OR O_CLOEXEC) mode) N w
        = Some wN
      \<and> os_openat E AT_FDCWD file (oflags OR O_CLOEXEC) mode wN = (r, w')
      \<and> \<not> (r < 0 \<and> errno w' = EINTR)
      \<longrightarrow> emacs_open E file oflags mode w = Some (Return r w')
          \<and> emacs_open E file oflags mode wN = Some (Return r w'))
   \<and> (\<forall>r w1 k w2.
      os_openat E AT_FDCWD file (oflags OR O_CLOEXEC) mode w = (r, w1)
      \<and> r < 0 \<and> errno w1 = EINTR \<and> maybe_quit E w1 = NonLocalExit k w2
      \<longrightarrow> emacs_open E file oflags mode w = Some (NonLocalExit k w2))
   \<and> (\<forall>r w'. emacs_read E fd buf nbyte w = Some (Return r w')
        \<longrightarrow> \<not> (r < 0 \<and> errno w' = EINTR))
   \<and> (\<forall>n w'. emacs_write E fd buf nbyte w = Some (Return n w') \<and> n < nbyte
        \<longrightarrow> errno w' \<noteq> EINTR)
   \<and> (\<forall>r w'. emacs_open E file oflags mode w = Some (Return r w')
        \<longrightarrow> \<not> (r < 0 \<and> errno w' = EINTR))"
proof (intro conjI allI impI)
  fix N wN r w'
  assume a: "eintr_times (os_read E fd buf nbyte) N w = Some wN
      \<and> os_read E fd buf nbyte wN = (r, w') \<and> \<not> (r < 0 \<and> errno w' = EINTR)
      \<and> (nbyte \<le> MAX_RW_COUNT E \<or> \<not> ENABLE_CHECKING E)"
  have n: "emacs_intr_read_loop E fd buf nbyte False wN = Some (Return r w')"
    using a read_loop_first by blast
  have "emacs_intr_read_loop E fd buf nbyte False w = Some (Return r w')"
    using a n read_loop_retry [of E fd buf nbyte N w wN] by simp
  with a n show "emacs_read E fd buf nbyte w = Some (Return r w')"
    and "emacs_read E fd buf nbyte wN = Some (Return r w')"
    by (auto simp: emacs_read_def emacs_intr_read_def)
next
  fix N wN
  assume "eintr_times (os_write E fd buf (min nbyte (MAX_RW_COUNT E))) N w = Some wN \<and> 0 < nbyte"
  then show "emacs_write E fd buf nbyte w = emacs_write E fd buf nbyte wN"
    using write_loop_retry [of E fd buf nbyte N w wN 0]
    by (simp add: emacs_write_def emacs_full_write_def)
next
  fix N wN r w'
  assume a: "eintr_quit_times (maybe_quit E) (os_openat E AT_FDCWD file (oflags OR O_CLOEXEC) mode) N w
        = Some wN
      \<and> os_openat E AT_FDCWD file (oflags OR O_CLOEXEC) mode wN = (r, w')
      \<and> \<not> (r < 0 \<and> errno w' = EINTR)"
  have n: "emacs_openat_loop E AT_FDCWD file (oflags OR O_CLOEXEC) mode wN = Some (Return r w')"
    using a openat_loop_first by blast
  have "emacs_openat_loop E AT_FDCWD file (oflags OR O_CLOEXEC) mode w = Some (Return r w')"
    using a n openat_loop_retry [of E AT_FDCWD "file" "oflags OR O_CLOEXEC" mode N w wN] by simp
  with n show "emacs_open E file oflags mode w = Some (Return r w')"
    and "emacs_open E file oflags mode wN = Some (Return r w')"
    by (simp_all add: emacs_open_eq)
next
  fix r w1 k w2
  assume "os_openat E AT_FDCWD file (oflags OR O_CLOEXEC) mode w = (r, w1)
      \<and> r < 0 \<and> errno w1 = EINTR \<and> maybe_quit E w1 = NonLocalExit k w2"
  then show "emacs_open E file oflags mode w = Some (NonLocalExit k w2)"
    using openat_loop_quit [of E AT_FDCWD "file" "oflags OR O_CLOEXEC" mode w r w1 k w2]
    by (simp add: emacs_open_eq)
next
  fix r w'
  assume "emacs_read E fd buf nbyte w = Some (Return r w')"
  then have "emacs_intr_read_loop E fd buf nbyte False w = Some (Return r w')"
    by (simp add: emacs_read_def emacs_intr_read_def split: if_splits)
  then show "\<not> (r < 0 \<and> errno w' = EINTR)"
    using read_loop_result by blast
next
  fix n w'
  assume "emacs_write E fd buf nbyte w = Some (Return n w') \<and> n < nbyte"
  then have "emacs_full_write_loop E fd buf nbyte 0 0 w = Some (Return n w')" and "n < 0 + nbyte"
    by (simp_all add: emacs_write_def emacs_full_write_def)
  then show "errno w' \<noteq> EINTR"
    using write_loop_result by blast
next
  fix r w'
  assume "emacs_open E file oflags mode w = Some (Return r w')"
  then have "emacs_openat_loop E AT_FDCWD file (oflags OR O_CLOEXEC) mode w = Some (Return r w')"
    by (simp add: emacs_open_eq)
  then show "\<not> (r < 0 \<and> errno w' = EINTR)"
    using openat_loop_result by blast
qed

text \<open>
  Two interruptions before a read of 7 bytes, one before a write that then takes two
  calls, one before an open, with no quit pending.
\<close>

theorem retry_transparency_witness:
  "eintr_times (os_read sim_env 0 100 10) 2 (sim_start\<lparr>script := [(- 1, EINTR), (- 1, EINTR), (7, 0)]\<rparr>)
     = Some (sim_start\<lparr>errno := EINTR, script := [(7, 0)],
                        calls := [Sys_read 0 100 10, Sys_read 0 100 10]\<rparr>)
   \<and> map_option verdict
       (emacs_read sim_env 0 100 10 (sim_start\<lparr>script := [(- 1, EINTR), (- 1, EINTR), (7, 0)]\<rparr>))
     = Some (Inr 7)
   \<and> map_option verdict
       (emacs_read sim_env 0 100 10
          (sim_start\<lparr>errno := EINTR, script := [(7, 0)],
                      calls := [Sys_read 0 100 10, Sys_read 0 100 10]\<rparr>))
     = Some (Inr 7)
   \<and> map_option verdict
       (emacs_write sim_env 1 100 10 (sim_start\<lparr>script := [(- 1, EINTR), (4, 0), (6, 0)]\<rparr>))
     = Some (Inr 10)
   \<and> map_option verdict
       (emacs_open sim_env ''f'' 0 0 (sim_start\<lparr>script := [(- 1, EINTR), (3, 0)]\<rparr>))
     = Some (Inr 3)"
  using retry_transparency
    [of sim_env 0 100 10 "sim_start\<lparr>script := [(- 1, EINTR), (- 1, EINTR), (7, 0)]\<rparr>" "''f''" 0 0]
  by (simp add: sim_simps emacs_read_def emacs_intr_read_def emacs_intr_read_loop.simps
      emacs_write_def emacs_full_write_def emacs_full_write_loop.simps
      emacs_open_eq emacs_openat_loop.simps sys_openat_def AT_FDCWD_def O_CLOEXEC_def
      eval_nat_numeral)

text \<open>
  The claim as stated fails for \<^verbatim>\<open>emacs_open\<close>: with a quit pending, an open that is
  interrupted once and would then succeed with descriptor 3 does not return 3, it
  leaves through \<^verbatim>\<open>maybe_quit\<close>; had the open succeeded at once, 3 would be returned.
\<close>

theorem emacs_open_quit_counterexample:
  "eintr_times (os_openat sim_env AT_FDCWD ''f'' O_CLOEXEC 0) 1
       (sim_start\<lparr>script := [(- 1, EINTR), (3, 0)], quit_flag := True\<rparr>)
     = Some (sim_start\<lparr>errno := EINTR, script := [(3, 0)],
                        calls := [Sys_openat AT_FDCWD ''f'' O_CLOEXEC 0], quit_flag := True\<rparr>)
   \<and> fst (os_openat sim_env AT_FDCWD ''f'' O_CLOEXEC 0
            (sim_start\<lparr>errno := EINTR, script := [(3, 0)],
                        calls := [Sys_openat AT_FDCWD ''f'' O_CLOEXEC 0], quit_flag := True\<rparr>)) = 3
   \<and> map_option verdict
       (emacs_open sim_env ''f'' 0 0
          (sim_start\<lparr>errno := EINTR, script := [(3, 0)],
                      calls := [Sys_openat AT_FDCWD ''f'' O_CLOEXEC 0], quit_flag := True\<rparr>))
     = Some (Inr 3)
   \<and> map_option verdict
       (emacs_open sim_env ''f'' 0 0
          (sim_start\<lparr>script := [(- 1, EINTR), (3, 0)], quit_flag := True\<rparr>))
     = Some (Inl Quit)"
  by (simp add: sim_simps emacs_open_eq emacs_openat_loop.simps sys_openat_def
      AT_FDCWD_def O_CLOEXEC_def eval_nat_numeral)

section \<open>The lengths passed to read and write\<close>

subsection \<open>What the simulated system is asked for\<close>




subsection \<open>Capping, looping and returning early\<close>




section \<open>Waiting for a child and polling it\<close>










section \<open>Closing a descriptor\<close>





section \<open>Setting the terminal modes\<close>

lemma length_tty_answers: "length (tty_answers E fd act t n w) = n"
  by (induction n arbitrary: w) (auto split: prod.splits)

lemma set_tty_loop_unfold:
  "emacs_set_tty_loop E fd settings flushp i w =
     (if i < 10
      then
        (case os_tcsetattr E fd (if flushp then TCSAFLUSH else TCSADRAIN) (main settings) w of
           (r, w1) \<Rightarrow>
             if r < 0
             then (if errno w1 = EINTR
                   then emacs_set_tty_loop E fd settings flushp (i + 1) w1
                   else (- 1, w1))
             else
               (case os_tcgetattr E fd zero_termios w1 of (r2, new, w2) \<Rightarrow>
                  if same_attributes new (main settings) then (0, w2)
                  else emacs_set_tty_loop E fd settings flushp (i + 1) w2))
      else (0, w))"
  unfolding same_attributes_def by (rule emacs_set_tty_loop.simps)

lemma set_tty_loop_eq:
  "i + n = 10 \<Longrightarrow>
   emacs_set_tty_loop E fd settings flushp i w =
     ((case find (\<lambda>a. \<not> retried (main settings) a)
              (tty_answers E fd (if flushp then TCSAFLUSH else TCSADRAIN) (main settings) n w) of
         Some (Set_failed e) \<Rightarrow> - 1 | _ \<Rightarrow> 0),
      tty_rounds E fd (if flushp then TCSAFLUSH else TCSADRAIN) (main settings)
        (min n (Suc (length (takeWhile (retried (main settings))
           (tty_answers E fd (if flushp then TCSAFLUSH else TCSADRAIN) (main settings) n w))))) w)"
proof (induction n arbitrary: i w)
  case 0
  then show ?case
    by (subst emacs_set_tty_loop.simps) simp
next
  case (Suc n)
  let ?act = "if flushp then TCSAFLUSH else TCSADRAIN"
  have i: "i < 10" and i1: "(i + 1) + n = 10" using Suc.prems by simp_all
  obtain r w1 where p: "os_tcsetattr E fd ?act (main settings) w = (r, w1)"
    by (cases "os_tcsetattr E fd ?act (main settings) w")
  obtain r2 new w2 where q: "os_tcgetattr E fd zero_termios w1 = (r2, new, w2)"
    by (cases "os_tcgetattr E fd zero_termios w1") auto
  note ih1 = Suc.IH [OF i1, of w1] and ih2 = Suc.IH [OF i1, of w2]
  consider (hard) "r < 0" "errno w1 \<noteq> EINTR" | (intr) "r < 0" "errno w1 = EINTR"
    | (same) "\<not> r < 0" "same_attributes new (main settings)"
    | (differ) "\<not> r < 0" "\<not> same_attributes new (main settings)"
    by blast
  then show ?case
  proof cases
    case hard
    then show ?thesis
      using i p by (subst set_tty_loop_unfold) simp
  next
    case intr
    then show ?thesis
      using i p ih1 by (subst set_tty_loop_unfold) simp
  next
    case same
    then show ?thesis
      using i p q by (subst set_tty_loop_unfold) simp
  next
    case differ
    then show ?thesis
      using i p q ih2 by (subst set_tty_loop_unfold) simp
  qed
qed


lemma takeWhile_prefix_retried:
  "j < length (takeWhile P xs) \<Longrightarrow> P (xs ! j)"
  by (metis nth_mem set_takeWhileD takeWhile_nth)

lemma find_at_takeWhile:
  "length (takeWhile P xs) < length xs \<Longrightarrow>
   find (\<lambda>a. \<not> P a) xs = Some (xs ! length (takeWhile P xs))"
  by (induction xs) auto

lemma find_none_takeWhile:
  "length (takeWhile P xs) = length xs \<Longrightarrow> find (\<lambda>a. \<not> P a) xs = None"
  by (induction xs) (auto split: if_splits)

text \<open>
  Claim C6. Let \<open>answers\<close> be what the terminal answers to ten rounds of \<^verbatim>\<open>tcsetattr\<close>
  and read-back. \<^verbatim>\<open>emacs_set_tty\<close> goes on while a round is retried (the set call failed
  with \<^verbatim>\<open>EINTR\<close>, or the attributes read back differ from those requested in \<open>iflag\<close>,
  \<open>oflag\<close>, \<open>cflag\<close>, \<open>lflag\<close> or the control characters), for at most ten rounds. It
  returns - 1 exactly when the first round that is not retried, among the ten, is a set
  call failing with an error other than \<^verbatim>\<open>EINTR\<close>, and 0 in every other case: when the
  read-back matched, and also when ten rounds went by.
\<close>

theorem emacs_set_tty_result:
  "let act = (if flushp then TCSAFLUSH else TCSADRAIN);
       t = main settings;
       answers = tty_answers E fd act t 10 w;
       rounds = min 10 (Suc (length (takeWhile (retried t) answers)))
   in (fst (emacs_set_tty E fd settings flushp w) = - 1
        \<longleftrightarrow> (\<exists>k<10. (\<forall>j<k. retried t (answers ! j))
                    \<and> (\<exists>e. answers ! k = Set_failed e \<and> e \<noteq> EINTR)))
      \<and> (fst (emacs_set_tty E fd settings flushp w) \<noteq> - 1
           \<longrightarrow> fst (emacs_set_tty E fd settings flushp w) = 0)
      \<and> snd (emacs_set_tty E fd settings flushp w) = tty_rounds E fd act t rounds w
      \<and> rounds \<le> 10
      \<and> (\<forall>j < rounds - 1. retried t (answers ! j))
      \<and> (fst (emacs_set_tty E fd settings flushp w) = 0 \<and> rounds < 10
           \<longrightarrow> (\<exists>new. answers ! (rounds - 1) = Read_back new \<and> same_attributes new t))"
proof -
  define act where "act = (if flushp then TCSAFLUSH else TCSADRAIN)"
  define t where "t = main settings"
  define answers where "answers = tty_answers E fd act t 10 w"
  define l where "l = length (takeWhile (retried t) answers)"
  define rounds where "rounds = min 10 (Suc l)"
  define res where "res = fst (emacs_set_tty E fd settings flushp w)"
  have len: "length answers = 10"
    by (simp add: answers_def length_tty_answers)
  have l10: "l \<le> 10"
    using length_takeWhile_le [of "retried t" answers] len by (simp add: l_def)
  have eq: "emacs_set_tty E fd settings flushp w =
      ((case find (\<lambda>a. \<not> retried t a) answers of Some (Set_failed e) \<Rightarrow> - 1 | _ \<Rightarrow> 0),
       tty_rounds E fd act t rounds w)"
    using set_tty_loop_eq [of 0 10 E fd settings flushp w]
    by (simp add: emacs_set_tty_def answers_def act_def t_def rounds_def l_def)
  have res: "res = (case find (\<lambda>a. \<not> retried t a) answers of Some (Set_failed e) \<Rightarrow> - 1 | _ \<Rightarrow> 0)"
    by (simp add: res_def eq)
  have prefix: "\<And>j. j < l \<Longrightarrow> retried t (answers ! j)"
    unfolding l_def by (rule takeWhile_prefix_retried)
  have found: "l < 10 \<Longrightarrow> find (\<lambda>a. \<not> retried t a) answers = Some (answers ! l)
      \<and> \<not> retried t (answers ! l)"
    using find_at_takeWhile [of "retried t" answers] nth_length_takeWhile [of "retried t" answers]
      len by (simp add: l_def)
  have none: "l = 10 \<Longrightarrow> find (\<lambda>a. \<not> retried t a) answers = None"
    using find_none_takeWhile [of "retried t" answers] len by (simp add: l_def)
  have p1: "res = - 1 \<longleftrightarrow> (\<exists>k<10. (\<forall>j<k. retried t (answers ! j))
                    \<and> (\<exists>e. answers ! k = Set_failed e \<and> e \<noteq> EINTR))"
  proof
    assume m: "res = - 1"
    then have "l < 10" using none l10 res by (cases "l = 10") auto
    with found have f: "find (\<lambda>a. \<not> retried t a) answers = Some (answers ! l)"
      and nr: "\<not> retried t (answers ! l)" by auto
    from m res f obtain e where e: "answers ! l = Set_failed e"
      by (cases "answers ! l") auto
    with nr have "e \<noteq> EINTR" by simp
    with e prefix \<open>l < 10\<close> show "\<exists>k<10. (\<forall>j<k. retried t (answers ! j))
                    \<and> (\<exists>e. answers ! k = Set_failed e \<and> e \<noteq> EINTR)"
      by blast
  next
    assume "\<exists>k<10. (\<forall>j<k. retried t (answers ! j))
                    \<and> (\<exists>e. answers ! k = Set_failed e \<and> e \<noteq> EINTR)"
    then obtain k e where k: "k < 10" "\<forall>j<k. retried t (answers ! j)"
      "answers ! k = Set_failed e" "e \<noteq> EINTR" by blast
    have "find (\<lambda>a. \<not> retried t a) answers = Some (Set_failed e)"
      unfolding find_Some_iff using k len by (intro exI [of _ k]) auto
    then show "res = - 1" by (simp add: res)
  qed
  have p2: "res \<noteq> - 1 \<longrightarrow> res = 0"
    by (auto simp: res split: option.splits tty_answer.splits)
  have p3: "snd (emacs_set_tty E fd settings flushp w) = tty_rounds E fd act t rounds w"
    by (simp add: eq)
  have p4: "rounds \<le> 10" by (simp add: rounds_def)
  have p5: "\<forall>j < rounds - 1. retried t (answers ! j)"
    using prefix by (simp add: rounds_def)
  have p6: "res = 0 \<and> rounds < 10
      \<longrightarrow> (\<exists>new. answers ! (rounds - 1) = Read_back new \<and> same_attributes new t)"
  proof
    assume a: "res = 0 \<and> rounds < 10"
    then have l: "l < 9" and r: "rounds - 1 = l" by (auto simp: rounds_def)
    with found have f: "find (\<lambda>a. \<not> retried t a) answers = Some (answers ! l)"
      and nr: "\<not> retried t (answers ! l)" by auto
    from a res f obtain new where n: "answers ! l = Read_back new"
      by (cases "answers ! l") auto
    with nr have "same_attributes new t" by simp
    with n r show "\<exists>new. answers ! (rounds - 1) = Read_back new \<and> same_attributes new t"
      by simp
  qed
  from p1 p2 p3 p4 p5 p6 show ?thesis
    unfolding Let_def res_def rounds_def l_def answers_def t_def act_def by blast
qed

text \<open>
  An interruption, then a set call that the terminal silently did not honour, then one
  it did: three rounds and 0. A set call failing with \<^verbatim>\<open>EIO\<close> in the second round: - 1.
  Ten interruptions: 0, and the eleventh answer is never asked for.
\<close>

theorem emacs_set_tty_result_witness:
  "fst (emacs_set_tty sim_env 0 \<lparr>main = zero_termios\<lparr>c_iflag := 1\<rparr>\<rparr> True
          (sim_start\<lparr>script := [(- 1, EINTR), (0, 0), (0, 0)],
                      readbacks := [zero_termios, zero_termios\<lparr>c_iflag := 1\<rparr>]\<rparr>)) = 0
   \<and> calls (snd (emacs_set_tty sim_env 0 \<lparr>main = zero_termios\<lparr>c_iflag := 1\<rparr>\<rparr> True
          (sim_start\<lparr>script := [(- 1, EINTR), (0, 0), (0, 0)],
                      readbacks := [zero_termios, zero_termios\<lparr>c_iflag := 1\<rparr>]\<rparr>)))
       = [Sys_tcsetattr 0 TCSAFLUSH (zero_termios\<lparr>c_iflag := 1\<rparr>),
          Sys_tcsetattr 0 TCSAFLUSH (zero_termios\<lparr>c_iflag := 1\<rparr>), Sys_tcgetattr 0,
          Sys_tcsetattr 0 TCSAFLUSH (zero_termios\<lparr>c_iflag := 1\<rparr>), Sys_tcgetattr 0]
   \<and> fst (emacs_set_tty sim_env 0 \<lparr>main = zero_termios\<lparr>c_iflag := 1\<rparr>\<rparr> False
          (sim_start\<lparr>script := [(0, 0), (- 1, EIO)], readbacks := [zero_termios]\<rparr>)) = - 1
   \<and> fst (emacs_set_tty sim_env 0 \<lparr>main = zero_termios\<lparr>c_iflag := 1\<rparr>\<rparr> False
          (sim_start\<lparr>script := [(- 1, EINTR), (- 1, EINTR), (- 1, EINTR), (- 1, EINTR),
                                  (- 1, EINTR), (- 1, EINTR), (- 1, EINTR), (- 1, EINTR),
                                  (- 1, EINTR), (- 1, EINTR), (- 1, EIO)]\<rparr>)) = 0"
  using emacs_set_tty_result
    [of True "\<lparr>main = zero_termios\<lparr>c_iflag := 1\<rparr>\<rparr>" sim_env 0
        "sim_start\<lparr>script := [(- 1, EINTR), (0, 0), (0, 0)],
                    readbacks := [zero_termios, zero_termios\<lparr>c_iflag := 1\<rparr>]\<rparr>"]
  by (simp add: sim_simps emacs_set_tty_def emacs_set_tty_loop.simps zero_termios_def)

section \<open>Discarding terminal input\<close>

text \<open>
  Whatever the environment, \<^verbatim>\<open>discard_tty_input\<close> behaves as it would if every
  \<^verbatim>\<open>tcsetattr\<close> were made with \<^verbatim>\<open>TCSADRAIN\<close>: it never asks for \<^verbatim>\<open>TCSAFLUSH\<close>.
\<close>

lemma tty_answers_drain:
  "tty_answers (E\<lparr>os_tcsetattr := (\<lambda>fd act. os_tcsetattr E fd TCSADRAIN)\<rparr>) fd TCSADRAIN t n w
     = tty_answers E fd TCSADRAIN t n w"
  by (induction n arbitrary: w) (auto split: prod.splits)

lemma tty_rounds_drain:
  "tty_rounds (E\<lparr>os_tcsetattr := (\<lambda>fd act. os_tcsetattr E fd TCSADRAIN)\<rparr>) fd TCSADRAIN t n w
     = tty_rounds E fd TCSADRAIN t n w"
  by (induction n arbitrary: w) (auto split: prod.splits)

lemma emacs_set_tty_drain:
  "emacs_set_tty (E\<lparr>os_tcsetattr := (\<lambda>fd act. os_tcsetattr E fd TCSADRAIN)\<rparr>) fd settings False w
     = emacs_set_tty E fd settings False w"
proof -
  have ten: "(0::nat) + 10 = 10" by simp
  note eq = set_tty_loop_eq [OF ten]
  show ?thesis
    unfolding emacs_set_tty_def eq if_False tty_answers_drain tty_rounds_drain ..
qed

lemma discard_tty_input_ttys_drain:
  "discard_tty_input_ttys (E\<lparr>os_tcsetattr := (\<lambda>fd act. os_tcsetattr E fd TCSADRAIN)\<rparr>) ttys w
     = discard_tty_input_ttys E ttys w"
  by (induction ttys arbitrary: w)
     (auto simp: emacs_set_tty_drain emacs_get_tty_def split: option.splits prod.splits)

lemma discard_tty_input_never_flushes:
  "discard_tty_input (E\<lparr>os_tcsetattr := (\<lambda>fd act. os_tcsetattr E fd TCSADRAIN)\<rparr>) w
     = discard_tty_input E w"
  by (simp add: discard_tty_input_def discard_tty_input_ttys_drain)

text \<open>
  Claim C7. The claim has \<^verbatim>\<open>discard_tty_input\<close> set each open tty's mode back with the
  flush option enabled. The code passes 0 as \<^verbatim>\<open>flushp\<close>: in an interactive session with
  one open tty on descriptor 0, the calls made are \<^verbatim>\<open>tcgetattr\<close>, then \<^verbatim>\<open>tcsetattr\<close>
  with \<^verbatim>\<open>TCSADRAIN\<close> and the attributes just read, then the read-back of
  \<^verbatim>\<open>emacs_set_tty\<close>. The mode is set back unchanged, but nothing is flushed.
\<close>

theorem discard_tty_input_drains:
  "calls (discard_tty_input sim_env
            (sim_start\<lparr>script := [(0, 0)],
                        readbacks := [zero_termios\<lparr>c_lflag := 35387\<rparr>,
                                      zero_termios\<lparr>c_lflag := 35387\<rparr>]\<rparr>))
     = [Sys_tcgetattr 0,
        Sys_tcsetattr 0 TCSADRAIN (zero_termios\<lparr>c_lflag := 35387\<rparr>),
        Sys_tcgetattr 0]"
  by (simp add: sim_simps discard_tty_input_def emacs_get_tty_def emacs_set_tty_def
      emacs_set_tty_loop.simps zero_termios_def)

section \<open>The dispositions after installing the handlers\<close>

lemma sigaction_sel:
  "sigtable (sigaction sig act w) = (sigtable w)(sig := act)"
  "noninteractive (sigaction sig act w) = noninteractive w"
  "process_fatal_action (sigaction sig act w) = process_fatal_action w"
  by (simp_all add: sigaction_def)

lemma signal_c_sel:
  "sigtable (signal_c sig h w) = (sigtable w)(sig := \<lparr>sa_handler = h, sa_mask = {}, sa_flags = {}\<rparr>)"
  "noninteractive (signal_c sig h w) = noninteractive w"
  "process_fatal_action (signal_c sig h w) = process_fatal_action w"
  by (simp_all add: signal_c_def)

lemma maybe_fatal_sig_sel:
  "sigtable (maybe_fatal_sig sig w) =
     (sigtable w)(sig := if noninteractive w \<and> sa_handler (sigtable w sig) = SIG_IGN
                         then sigtable w sig else process_fatal_action w)"
  "noninteractive (maybe_fatal_sig sig w) = noninteractive w"
  "process_fatal_action (maybe_fatal_sig sig w) = process_fatal_action w"
  by (auto simp: maybe_fatal_sig_def sigaction_def Let_def)

lemma add_user_signal_sel:
  "sigtable (add_user_signal sig w) = (sigtable w)(sig := emacs_sigaction_init Deliver_user_signal w)"
  "noninteractive (add_user_signal sig w) = noninteractive w"
  "process_fatal_action (add_user_signal sig w) = process_fatal_action w"
  by (simp_all add: add_user_signal_def sigaction_def)

lemma init_sigsegv_sim_sel:
  "sigtable (snd (init_sigsegv sim_env w)) SIGHUP = sigtable w SIGHUP"
  "sigtable (snd (init_sigsegv sim_env w)) SIGINT = sigtable w SIGINT"
  "sigtable (snd (init_sigsegv sim_env w)) SIGTERM = sigtable w SIGTERM"
  "sigtable (snd (init_sigsegv sim_env w)) SIGPIPE = sigtable w SIGPIPE"
  "noninteractive (snd (init_sigsegv sim_env w)) = noninteractive w"
  "process_fatal_action (snd (init_sigsegv sim_env w)) = process_fatal_action w"
  by (simp_all add: init_sigsegv_def sim_env_sel sim_call_def sigaction_def Let_def
      split: list.splits prod.splits)

lemma init_signals_sim_dispositions:
  "sa_handler (sigtable (init_signals sim_env w) SIGTERM) = Deliver_fatal_signal"
  "sa_handler (sigtable (init_signals sim_env w) SIGHUP) =
     (if noninteractive w \<and> sa_handler (sigtable w SIGHUP) = SIG_IGN then SIG_IGN
      else Deliver_fatal_signal)"
  "sa_handler (sigtable (init_signals sim_env w) SIGINT) =
     (if noninteractive w \<and> sa_handler (sigtable w SIGINT) = SIG_IGN then SIG_IGN
      else Deliver_fatal_signal)"
  "sa_handler (sigtable (init_signals sim_env w) SIGPIPE) =
     (if noninteractive w then sa_handler (sigtable w SIGPIPE) else SIG_IGN)"
  by (simp_all add: init_signals_def Let_def sigaction_sel signal_c_sel maybe_fatal_sig_sel
      add_user_signal_sel init_sigsegv_sim_sel case_prod_unfold if_distrib [of "\<lambda>w. sigtable w _"]
      if_distrib [of noninteractive] if_distrib [of process_fatal_action] SIGIOT_def)

text \<open>
  Claim C8. In batch mode, with \<^verbatim>\<open>SIGHUP\<close> and \<^verbatim>\<open>SIGTERM\<close> ignored on entry:
  \<^verbatim>\<open>init_signals\<close> leaves \<^verbatim>\<open>SIGHUP\<close> ignored, registers \<^verbatim>\<open>SIGINT\<close> with the
  fatal-process handler and leaves \<^verbatim>\<open>SIGPIPE\<close> alone, as the claim says; but \<^verbatim>\<open>SIGTERM\<close>
  ends up registered with the fatal-process handler, because after
  \<^verbatim>\<open>maybe_fatal_sig (SIGTERM)\<close> the function calls
  \<^verbatim>\<open>sigaction (SIGTERM, &process_fatal_action, 0)\<close> unconditionally.
\<close>

theorem init_signals_batch_sigterm:
  "sa_handler (sigtable (init_signals sim_env
       (sim_start\<lparr>noninteractive := True, script := [(0, 0)],
                   sigtable := (sigtable sim_start)
                     (SIGHUP := \<lparr>sa_handler = SIG_IGN, sa_mask = {}, sa_flags = {}\<rparr>,
                      SIGTERM := \<lparr>sa_handler = SIG_IGN, sa_mask = {}, sa_flags = {}\<rparr>)\<rparr>))
     SIGTERM) = Deliver_fatal_signal
   \<and> sa_handler (sigtable (init_signals sim_env
       (sim_start\<lparr>noninteractive := True, script := [(0, 0)],
                   sigtable := (sigtable sim_start)
                     (SIGHUP := \<lparr>sa_handler = SIG_IGN, sa_mask = {}, sa_flags = {}\<rparr>,
                      SIGTERM := \<lparr>sa_handler = SIG_IGN, sa_mask = {}, sa_flags = {}\<rparr>)\<rparr>))
     SIGHUP) = SIG_IGN
   \<and> sa_handler (sigtable (init_signals sim_env
       (sim_start\<lparr>noninteractive := True, script := [(0, 0)],
                   sigtable := (sigtable sim_start)
                     (SIGHUP := \<lparr>sa_handler = SIG_IGN, sa_mask = {}, sa_flags = {}\<rparr>,
                      SIGTERM := \<lparr>sa_handler = SIG_IGN, sa_mask = {}, sa_flags = {}\<rparr>)\<rparr>))
     SIGINT) = Deliver_fatal_signal
   \<and> sa_handler (sigtable (init_signals sim_env
       (sim_start\<lparr>noninteractive := True, script := [(0, 0)],
                   sigtable := (sigtable sim_start)
                     (SIGHUP := \<lparr>sa_handler = SIG_IGN, sa_mask = {}, sa_flags = {}\<rparr>,
                      SIGTERM := \<lparr>sa_handler = SIG_IGN, sa_mask = {}, sa_flags = {}\<rparr>)\<rparr>))
     SIGPIPE) = SIG_DFL"
  by (simp add: init_signals_sim_dispositions sim_start_def)

end
